theory Spec2Isabelle
  imports Main
begin

section \<open>Python strings and their rendering\<close>

text \<open>
  A Python \<open>str\<close> is a sequence of Unicode code points, and \<open>len\<close> counts code points.
  It is modelled as a list of code points (natural numbers), so that \<open>length\<close> is \<open>len\<close>
  and \<open>take n\<close> is the slice \<open>[:n]\<close>. ASCII literals of the source are written with
  \<open>lit\<close>; the four non-ASCII symbols the source prints are named constants.
\<close>

type_synonym pystr = "nat list"

definition lit :: "string \<Rightarrow> pystr" where
  "lit s = map of_char s"

definition check_mark :: pystr where
  "check_mark = [0x2713]"

definition heart :: pystr where
  "heart = [0x2665]"

definition repost_sign :: pystr where
  "repost_sign = [0x1F501]"

definition speech_balloon :: pystr where
  "speech_balloon = [0x1F4AC]"

text \<open>\<open>str(n)\<close> of a non-negative integer, of an integer, and of an optional integer.\<close>

fun str_nat :: "nat \<Rightarrow> pystr" where
  "str_nat n = (if n < 10 then [48 + n] else str_nat (n div 10) @ [48 + n mod 10])"

declare str_nat.simps [simp del]

definition str_int :: "int \<Rightarrow> pystr" where
  "str_int i = (if i < 0 then lit ''-'' @ str_nat (nat (- i)) else str_nat (nat i))"

definition str_opt_int :: "int option \<Rightarrow> pystr" where
  "str_opt_int x = (case x of None \<Rightarrow> lit ''None'' | Some i \<Rightarrow> str_int i)"

text \<open>\<open>str.isspace\<close> on one code point, and \<open>str.strip()\<close>.\<close>

definition isspace :: "nat \<Rightarrow> bool" where
  "isspace c =
     ((9 \<le> c \<and> c \<le> 13) \<or> (28 \<le> c \<and> c \<le> 32) \<or> c = 133 \<or> c = 160 \<or> c = 5760 \<or>
      (8192 \<le> c \<and> c \<le> 8202) \<or> c = 8232 \<or> c = 8233 \<or> c = 8239 \<or> c = 8287 \<or> c = 12288)"

definition strip :: "pystr \<Rightarrow> pystr" where
  "strip s = rev (dropWhile isspace (rev (dropWhile isspace s)))"

text \<open>
  Reading a file in text mode translates CR LF and a lone CR into LF
  (code points 13 and 10).
\<close>

fun universal_newlines :: "pystr \<Rightarrow> pystr" where
  "universal_newlines [] = []"
| "universal_newlines [x] = [if x = 13 then 10 else x]"
| "universal_newlines (x # y # ys) =
     (if x = 13 \<and> y = 10 then 10 # universal_newlines ys
      else if x = 13 then 10 # universal_newlines (y # ys)
      else x # universal_newlines (y # ys))"

text \<open>\<open>sep.join(xs)\<close>.\<close>

fun join :: "pystr \<Rightarrow> pystr list \<Rightarrow> pystr" where
  "join sep [] = []"
| "join sep [x] = x"
| "join sep (x # y # ys) = x @ sep @ join sep (y # ys)"

text \<open>\<open>s.replace("Z", "+00:00")\<close>: every code point 90 becomes the six code points.\<close>

definition replace_Z :: "pystr \<Rightarrow> pystr" where
  "replace_Z s = concat (map (\<lambda>c. if c = 90 then lit ''+00:00'' else [c]) s)"

text \<open>Python's \<open>x or y\<close> on an optional string and on an optional integer.\<close>

definition or_str :: "pystr option \<Rightarrow> pystr \<Rightarrow> pystr" where
  "or_str x y = (case x of None \<Rightarrow> y | Some s \<Rightarrow> if s = [] then y else s)"

definition or_int :: "int option \<Rightarrow> int \<Rightarrow> int" where
  "or_int x y = (case x of None \<Rightarrow> y | Some i \<Rightarrow> if i = 0 then y else i)"

text \<open>Python's \<open>not x\<close> on an optional string: true of \<open>None\<close> and of the empty string.\<close>

definition py_not :: "pystr option \<Rightarrow> bool" where
  "py_not x = (case x of None \<Rightarrow> True | Some s \<Rightarrow> s = [])"


section \<open>The remote collaborator\<close>

text \<open>
  The protocol client library is a black box. Its response objects are records holding the
  attributes the program reads; its operations are the fields of \<open>remote\<close>, each returning
  either the exception it raises or its result.
\<close>

datatype exn =
    AtProtocolError pystr
  | AttributeError pystr
  | OSError pystr
  | UnicodeDecodeError pystr
  | OtherException pystr

text \<open>\<open>IOError\<close> is Python 3's \<open>OSError\<close>, with its subclasses.\<close>

fun is_IOError :: "exn \<Rightarrow> bool" where
  "is_IOError (OSError _) = True"
| "is_IOError _ = False"

record client =
  me_handle :: pystr
  me_did :: pystr
  session_string :: pystr

definition export_session_string :: "client \<Rightarrow> pystr" where
  "export_session_string c = session_string c"

datatype created = StrCreated pystr | OtherCreated pystr

record author_view =
  handle :: pystr
  display_name :: "pystr option"

record post_record =
  record_text :: pystr
  created_at :: created

record post_view =
  uri :: pystr
  cid :: pystr
  author :: author_view
  record_of :: post_record
  like_count :: "int option"
  repost_count :: "int option"
  reply_count :: "int option"

record feed_view_post =
  item_post :: post_view

datatype thread_node =
    ThreadViewPost post_view "thread_node option" "thread_node list option"
  | NotFoundPost
  | BlockedPost

text \<open>
  \<open>hasattr(node, "post")\<close> with \<open>node.post\<close>; \<open>hasattr(node, "parent") and node.parent\<close>;
  \<open>hasattr(node, "replies") and node.replies\<close>. Only a \<open>ThreadViewPost\<close> has the attributes.
\<close>

fun node_post :: "thread_node \<Rightarrow> post_view option" where
  "node_post (ThreadViewPost p _ _) = Some p"
| "node_post NotFoundPost = None"
| "node_post BlockedPost = None"

fun node_parent :: "thread_node \<Rightarrow> thread_node option" where
  "node_parent (ThreadViewPost _ parent _) = parent"
| "node_parent NotFoundPost = None"
| "node_parent BlockedPost = None"

fun node_replies :: "thread_node \<Rightarrow> thread_node list" where
  "node_replies (ThreadViewPost _ _ (Some replies)) = replies"
| "node_replies (ThreadViewPost _ _ None) = []"
| "node_replies NotFoundPost = []"
| "node_replies BlockedPost = []"

record profile_view =
  profile_handle :: pystr
  profile_display_name :: "pystr option"
  description :: "pystr option"
  followers_count :: "int option"
  follows_count :: "int option"
  posts_count :: "int option"

record reply_ref =
  root_uri :: pystr
  root_cid :: pystr
  parent_uri :: pystr
  parent_cid :: pystr

record remote =
  login_session :: "pystr \<Rightarrow> exn + client"
  login_password :: "pystr \<Rightarrow> pystr \<Rightarrow> exn + client"
  send_post :: "client \<Rightarrow> pystr \<Rightarrow> reply_ref option \<Rightarrow> exn + pystr"
  get_timeline :: "client \<Rightarrow> int \<Rightarrow> exn + feed_view_post list"
  get_post_thread :: "client \<Rightarrow> pystr \<Rightarrow> exn + thread_node"
  like_post :: "client \<Rightarrow> pystr \<Rightarrow> pystr \<Rightarrow> exn + unit"
  search_posts :: "client \<Rightarrow> pystr \<Rightarrow> int \<Rightarrow> exn + post_view list"
  get_profile :: "client \<Rightarrow> pystr \<Rightarrow> exn + profile_view"

text \<open>The requests a run sends to the remote, logged in order with whether they succeeded.\<close>

datatype call =
    LoginSession pystr
  | LoginPassword pystr pystr
  | SendPost pystr "reply_ref option"
  | GetTimeline int
  | GetPostThread pystr
  | LikePost pystr pystr
  | SearchPosts pystr int
  | GetProfile pystr

fun is_login :: "call \<Rightarrow> bool" where
  "is_login (LoginSession _) = True"
| "is_login (LoginPassword _ _) = True"
| "is_login _ = False"


fun is_session_login :: "call \<Rightarrow> bool" where
  "is_session_login (LoginSession _) = True"
| "is_session_login _ = False"


section \<open>The process and its surroundings\<close>

text \<open>
  The world of one invocation: the session file (\<open>None\<close> when the path does not exist,
  otherwise its content on disk), the exception, if any, that reading, writing (creating
  the directories included) and removing the path raise, the path as printed, what was
  echoed to the output and error streams (one entry per \<open>click.echo\<close>), and the log of remote
  requests. Reading raises \<open>OSError\<close> for a path that cannot be opened and
  \<open>UnicodeDecodeError\<close> for bytes that are not UTF-8; a write or a removal that raises
  leaves the file as it was.
\<close>

record world =
  session_file :: "pystr option"
  read_raises :: "exn option"
  write_raises :: "exn option"
  unlink_raises :: "exn option"
  session_path :: pystr
  stdout :: "pystr list"
  stderr :: "pystr list"
  calls :: "(call \<times> bool) list"

record env =
  BLUESKY_HANDLE :: "pystr option"
  BLUESKY_APP_PASSWORD :: "pystr option"

text \<open>
  How a function ends: it returns, it calls \<open>sys.exit(n)\<close>, or an exception leaves it.
  The interpreter turns a normal end into exit code 0 and an uncaught exception into a
  traceback and exit code 1.
\<close>

datatype 'a outcome = Return 'a | SysExit int | Raise exn

fun exit_code :: "'a outcome \<Rightarrow> int" where
  "exit_code (Return _) = 0"
| "exit_code (SysExit n) = n"
| "exit_code (Raise _) = 1"

definition echo :: "pystr \<Rightarrow> world \<Rightarrow> world" where
  "echo s w = w\<lparr>stdout := stdout w @ [s]\<rparr>"

definition echo_err :: "pystr \<Rightarrow> world \<Rightarrow> world" where
  "echo_err s w = w\<lparr>stderr := stderr w @ [s]\<rparr>"

definition request :: "call \<Rightarrow> bool \<Rightarrow> world \<Rightarrow> world" where
  "request c ok w = w\<lparr>calls := calls w @ [(c, ok)]\<rparr>"


section \<open>Session manager\<close>

text \<open>The file operations of \<open>pathlib\<close> on \<open>SESSION_FILE\<close>.\<close>

definition session_exists :: "world \<Rightarrow> bool" where
  "session_exists w = (case session_file w of None \<Rightarrow> False | Some _ \<Rightarrow> True)"

definition read_text :: "world \<Rightarrow> exn + pystr" where
  "read_text w =
     (case read_raises w of
        Some ex \<Rightarrow> Inl ex
      | None \<Rightarrow>
          (case session_file w of
             None \<Rightarrow> Inl (OSError (lit ''No such file or directory''))
           | Some s \<Rightarrow> Inr (universal_newlines s)))"

definition write_text :: "pystr \<Rightarrow> world \<Rightarrow> exn + world" where
  "write_text s w =
     (case write_raises w of
        Some ex \<Rightarrow> Inl ex
      | None \<Rightarrow> Inr (w\<lparr>session_file := Some s\<rparr>))"

definition unlink :: "world \<Rightarrow> exn + world" where
  "unlink w =
     (case unlink_raises w of
        Some ex \<Rightarrow> Inl ex
      | None \<Rightarrow>
          (case session_file w of
             None \<Rightarrow> Inl (OSError (lit ''No such file or directory''))
           | Some _ \<Rightarrow> Inr (w\<lparr>session_file := None\<rparr>)))"

text \<open>
  \<open>save_session\<close>: \<open>mkdir\<close> of the parent directories and \<open>write_text\<close> of the exported
  session string; either may raise.
\<close>

definition save_session :: "client \<Rightarrow> world \<Rightarrow> exn + world" where
  "save_session c w = write_text (export_session_string c) w"

text \<open>\<open>load_session\<close> catches \<open>IOError\<close> only; any other exception of \<open>read_text\<close> leaves it.\<close>

definition load_session :: "world \<Rightarrow> exn + pystr option" where
  "load_session w =
     (if \<not> session_exists w then Inr None
      else
        (case read_text w of
           Inr s \<Rightarrow> Inr (Some (strip s))
         | Inl ex \<Rightarrow> if is_IOError ex then Inr None else Inl ex))"

definition clear_session :: "world \<Rightarrow> exn + world" where
  "clear_session w = (if session_exists w then unlink w else Inr w)"

text \<open>
  The handler \<open>except AtProtocolError as e: click.echo(f"<prefix>{e}", err=True); sys.exit(1)\<close>;
  any other exception leaves the function.
\<close>

definition except_AtProtocolError :: "pystr \<Rightarrow> exn \<Rightarrow> world \<Rightarrow> 'a outcome \<times> world" where
  "except_AtProtocolError prefix ex w =
     (case ex of
        AtProtocolError msg \<Rightarrow> (SysExit 1, echo_err (prefix @ msg) w)
      | _ \<Rightarrow> (Raise ex, w))"

text \<open>
  \<open>get_client\<close>. The first \<open>try\<close> holds the login with the cached session string and
  \<open>save_session\<close>; its handler \<open>except Exception\<close> catches whatever either raises and calls
  \<open>clear_session\<close>, whose own exception leaves \<open>get_client\<close>. The second \<open>try\<close> holds the
  login with the credentials, \<open>save_session\<close> and the message; its handler catches
  \<open>AtProtocolError\<close> only.
\<close>

definition get_client :: "remote \<Rightarrow> env \<Rightarrow> world \<Rightarrow> client outcome \<times> world" where
  "get_client r e w =
     (let (restored, w1) =
        (case load_session w of
           Inl ex \<Rightarrow> (Inl ex, w)
         | Inr None \<Rightarrow> (Inr None, w)
         | Inr (Some session_str) \<Rightarrow>
             if session_str = [] then (Inr None, w)
             else
               (let attempt =
                  (case login_session r session_str of
                     Inl ex \<Rightarrow> Inl (request (LoginSession session_str) False w)
                   | Inr c \<Rightarrow>
                       (case save_session c (request (LoginSession session_str) True w) of
                          Inl ex \<Rightarrow> Inl (request (LoginSession session_str) True w)
                        | Inr w' \<Rightarrow> Inr (c, w')))
                in
                  case attempt of
                    Inr (c, w') \<Rightarrow> (Inr (Some c), w')
                  | Inl w0 \<Rightarrow>
                      (case clear_session w0 of
                         Inl ex \<Rightarrow> (Inl ex, w0)
                       | Inr w' \<Rightarrow> (Inr None, w'))))
      in
        case restored of
          Inl ex \<Rightarrow> (Raise ex, w1)
        | Inr (Some c) \<Rightarrow> (Return c, w1)
        | Inr None \<Rightarrow>
            (let h = BLUESKY_HANDLE e; password = BLUESKY_APP_PASSWORD e in
             if py_not h \<or> py_not password then
               (SysExit 1,
                echo_err (lit ''Error: BLUESKY_HANDLE and BLUESKY_APP_PASSWORD must be set'') w1)
             else
               (case login_password r (the h) (the password) of
                  Inl ex \<Rightarrow>
                    except_AtProtocolError (lit ''Login failed: '') ex
                      (request (LoginPassword (the h) (the password)) False w1)
                | Inr c \<Rightarrow>
                    (case save_session c (request (LoginPassword (the h) (the password)) True w1) of
                       Inl ex \<Rightarrow>
                         except_AtProtocolError (lit ''Login failed: '') ex
                           (request (LoginPassword (the h) (the password)) True w1)
                     | Inr w2 \<Rightarrow>
                         (Return c,
                          echo_err
                            (check_mark @ lit '' Logged in as @'' @ me_handle c @
                             lit '' (session cached)'') w2)))))"


section \<open>Formatting\<close>

text \<open>
  \<open>strftime_iso s\<close> stands for \<open>datetime.fromisoformat(s).strftime("%Y-%m-%d %H:%M")\<close> of the
  standard library, \<open>None\<close> when \<open>fromisoformat\<close> raises \<open>ValueError\<close>.
\<close>

definition format_post :: "(pystr \<Rightarrow> pystr option) \<Rightarrow> feed_view_post \<Rightarrow> bool \<Rightarrow> pystr" where
  "format_post strftime_iso item show_uri =
     (let rec = record_of (item_post item);
          auth = author (item_post item);
          created = created_at rec;
          time_str =
            (case created of
               StrCreated s \<Rightarrow>
                 (case strftime_iso (replace_Z s) of Some t \<Rightarrow> t | None \<Rightarrow> s)
             | OtherCreated shown \<Rightarrow> shown);
          lines = [];
          lines = lines @
            [lit ''@'' @ handle auth @ lit '' ('' @ or_str (display_name auth) (handle auth) @ lit '')''];
          lines = lines @ [lit ''  '' @ record_text rec];
          lines = lines @ [lit ''  '' @ time_str];
          likes = or_int (like_count (item_post item)) 0;
          reposts = or_int (repost_count (item_post item)) 0;
          replies = or_int (reply_count (item_post item)) 0;
          stats = lit ''  '' @ heart @ lit '' '' @ str_int likes @ lit ''  '' @ repost_sign @ lit '' '' @
                  str_int reposts @ lit ''  '' @ speech_balloon @ lit '' '' @ str_int replies;
          lines = lines @ [stats];
          lines = (if show_uri then lines @ [lit ''  URI: '' @ uri (item_post item)] else lines)
      in join (lit [CHR 0x0A]) lines)"


section \<open>Commands\<close>

text \<open>Sequencing: the rest of a function runs only when the call before it returned.\<close>

definition then_do ::
  "'a outcome \<times> world \<Rightarrow> ('a \<Rightarrow> world \<Rightarrow> 'b outcome \<times> world) \<Rightarrow> 'b outcome \<times> world" where
  "then_do m k =
     (case m of
        (Return x, w) \<Rightarrow> k x w
      | (SysExit n, w) \<Rightarrow> (SysExit n, w)
      | (Raise ex, w) \<Rightarrow> (Raise ex, w))"

definition post :: "remote \<Rightarrow> env \<Rightarrow> pystr \<Rightarrow> world \<Rightarrow> unit outcome \<times> world" where
  "post r e text w =
     (if length text > 300 then
        (SysExit 1,
         echo_err (lit ''Error: Post too long ('' @ str_nat (length text) @ lit '' chars, max 300)'') w)
      else
        then_do (get_client r e w) (\<lambda>c w1.
          case send_post r c text None of
            Inr result_uri \<Rightarrow>
              (Return (),
               echo (lit ''  URI: '' @ result_uri)
                 (echo (check_mark @ lit '' Posted: '' @ take 50 text @
                          (if length text > 50 then lit ''...'' else []))
                    (request (SendPost text None) True w1)))
          | Inl ex \<Rightarrow>
              except_AtProtocolError (lit ''Failed to post: '') ex
                (request (SendPost text None) False w1)))"

definition timeline ::
  "(pystr \<Rightarrow> pystr option) \<Rightarrow> remote \<Rightarrow> env \<Rightarrow> int \<Rightarrow> bool \<Rightarrow> world \<Rightarrow> unit outcome \<times> world" where
  "timeline strftime_iso r e limit uri_flag w =
     then_do (get_client r e w) (\<lambda>c w1.
       case get_timeline r c limit of
         Inr feed \<Rightarrow>
           (Return (),
            foldl (\<lambda>w' item. echo [] (echo (format_post strftime_iso item uri_flag) w'))
              (echo (lit ''# Timeline ('' @ str_nat (length feed) @ lit '' posts)'' @ lit [CHR 0x0A])
                 (request (GetTimeline limit) True w1))
              feed)
       | Inl ex \<Rightarrow>
           except_AtProtocolError (lit ''Failed to get timeline: '') ex
             (request (GetTimeline limit) False w1))"

definition reply :: "remote \<Rightarrow> env \<Rightarrow> pystr \<Rightarrow> pystr \<Rightarrow> world \<Rightarrow> unit outcome \<times> world" where
  "reply r e post_uri text w =
     (if length text > 300 then
        (SysExit 1,
         echo_err (lit ''Error: Reply too long ('' @ str_nat (length text) @ lit '' chars, max 300)'') w)
      else
        then_do (get_client r e w) (\<lambda>c w1.
          case get_post_thread r c post_uri of
            Inl ex \<Rightarrow>
              except_AtProtocolError (lit ''Failed to reply: '') ex
                (request (GetPostThread post_uri) False w1)
          | Inr thread_root \<Rightarrow>
              (let w2 = request (GetPostThread post_uri) True w1 in
               case node_post thread_root of
                 None \<Rightarrow> (Raise (AttributeError (lit ''post'')), w2)
               | Some parent \<Rightarrow>
                   (let reply_to =
                      \<lparr>root_uri = uri parent, root_cid = cid parent,
                       parent_uri = uri parent, parent_cid = cid parent\<rparr>
                    in
                      case send_post r c text (Some reply_to) of
                        Inr result_uri \<Rightarrow>
                          (Return (),
                           echo (lit ''  URI: '' @ result_uri)
                             (echo (check_mark @ lit '' Replied: '' @ take 50 text @
                                      (if length text > 50 then lit ''...'' else []))
                                (request (SendPost text (Some reply_to)) True w2)))
                      | Inl ex \<Rightarrow>
                          except_AtProtocolError (lit ''Failed to reply: '') ex
                            (request (SendPost text (Some reply_to)) False w2)))))"

definition like :: "remote \<Rightarrow> env \<Rightarrow> pystr \<Rightarrow> world \<Rightarrow> unit outcome \<times> world" where
  "like r e post_uri w =
     then_do (get_client r e w) (\<lambda>c w1.
       case get_post_thread r c post_uri of
         Inl ex \<Rightarrow>
           except_AtProtocolError (lit ''Failed to like: '') ex
             (request (GetPostThread post_uri) False w1)
       | Inr thread_root \<Rightarrow>
           (let w2 = request (GetPostThread post_uri) True w1 in
            case node_post thread_root of
              None \<Rightarrow> (Raise (AttributeError (lit ''post'')), w2)
            | Some p \<Rightarrow>
                (case like_post r c (uri p) (cid p) of
                   Inr _ \<Rightarrow>
                     (Return (),
                      echo (check_mark @ lit '' Liked post by @'' @ handle (author p))
                        (request (LikePost (uri p) (cid p)) True w2))
                 | Inl ex \<Rightarrow>
                     except_AtProtocolError (lit ''Failed to like: '') ex
                       (request (LikePost (uri p) (cid p)) False w2))))"

text \<open>The body of the loop over \<open>thread_post.replies[:10]\<close>.\<close>

definition show_reply :: "world \<Rightarrow> thread_node \<Rightarrow> world" where
  "show_reply w node =
     (case node_post node of
        Some p \<Rightarrow>
          echo []
            (echo (lit ''@'' @ handle (author p) @ lit '': '' @ take 100 (record_text (record_of p))) w)
      | None \<Rightarrow> w)"

definition thread :: "remote \<Rightarrow> env \<Rightarrow> pystr \<Rightarrow> world \<Rightarrow> unit outcome \<times> world" where
  "thread r e post_uri w =
     then_do (get_client r e w) (\<lambda>c w1.
       case get_post_thread r c post_uri of
         Inl ex \<Rightarrow>
           except_AtProtocolError (lit ''Failed to get thread: '') ex
             (request (GetPostThread post_uri) False w1)
       | Inr thread_post \<Rightarrow>
           (let w2 = request (GetPostThread post_uri) True w1;
                w3 =
                  (case node_parent thread_post of
                     Some parent \<Rightarrow>
                       (let wp = echo (lit ''--- Parent ---'') w2;
                            wp =
                              (case node_post parent of
                                 Some pp \<Rightarrow>
                                   echo (lit ''@'' @ handle (author pp) @ lit '': '' @
                                         record_text (record_of pp)) wp
                               | None \<Rightarrow> wp)
                        in echo [] wp)
                   | None \<Rightarrow> w2);
                w4 = echo (lit ''--- Post ---'') w3
            in
              case node_post thread_post of
                None \<Rightarrow> (Raise (AttributeError (lit ''post'')), w4)
              | Some p \<Rightarrow>
                  (let w5 = echo (lit ''@'' @ handle (author p) @ lit '' ('' @
                                  or_str (display_name (author p)) (handle (author p)) @ lit '')'') w4;
                       w6 = echo (lit ''  '' @ record_text (record_of p)) w5;
                       w7 = echo (lit ''  '' @ heart @ lit '' '' @ str_int (or_int (like_count p) 0) @
                                  lit ''  '' @ repost_sign @ lit '' '' @ str_int (or_int (repost_count p) 0) @
                                  lit ''  '' @ speech_balloon @ lit '' '' @ str_int (or_int (reply_count p) 0)) w6;
                       w8 = echo [] w7
                   in
                     (Return (),
                      if node_replies thread_post = [] then w8
                      else foldl show_reply (echo (lit ''--- Replies ---'') w8)
                             (take 10 (node_replies thread_post))))))"

definition search :: "remote \<Rightarrow> env \<Rightarrow> pystr \<Rightarrow> int \<Rightarrow> world \<Rightarrow> unit outcome \<times> world" where
  "search r e query limit w =
     then_do (get_client r e w) (\<lambda>c w1.
       case search_posts r c query limit of
         Inr posts \<Rightarrow>
           (Return (),
            foldl
              (\<lambda>w' p.
                 echo []
                   (echo (lit ''  '' @ heart @ lit '' '' @ str_int (or_int (like_count p) 0) @
                          lit ''  URI: '' @ uri p)
                      (echo (lit ''@'' @ handle (author p) @ lit '': '' @
                             take 100 (record_text (record_of p)) @ lit ''...'') w')))
              (echo (lit ''# Search: '' @ lit [CHR 0x27] @ query @ lit [CHR 0x27] @ lit '' ('' @
                     str_nat (length posts) @ lit '' results)'' @ lit [CHR 0x0A])
                 (request (SearchPosts query limit) True w1))
              posts)
       | Inl ex \<Rightarrow>
           except_AtProtocolError (lit ''Failed to search: '') ex
             (request (SearchPosts query limit) False w1))"

definition profile :: "remote \<Rightarrow> env \<Rightarrow> pystr option \<Rightarrow> world \<Rightarrow> unit outcome \<times> world" where
  "profile r e handle_arg w =
     then_do (get_client r e w) (\<lambda>c w1.
       let h = (case handle_arg of None \<Rightarrow> me_handle c | Some given \<Rightarrow> given) in
       case get_profile r c h of
         Inr result \<Rightarrow>
           (let w2 = echo (lit ''# @'' @ profile_handle result) (request (GetProfile h) True w1);
                w3 = (if py_not (profile_display_name result) then w2
                      else echo (lit ''  '' @ the (profile_display_name result)) w2);
                w4 = (if py_not (description result) then w3
                      else echo (lit ''  '' @ the (description result)) w3);
                w5 = echo [] w4;
                w6 = echo (lit ''  Followers: '' @ str_opt_int (followers_count result)) w5;
                w7 = echo (lit ''  Following: '' @ str_opt_int (follows_count result)) w6
            in (Return (), echo (lit ''  Posts: '' @ str_opt_int (posts_count result)) w7))
       | Inl ex \<Rightarrow>
           except_AtProtocolError (lit ''Failed to get profile: '') ex
             (request (GetProfile h) False w1))"



text \<open>The command group: the subcommand of an invocation, with its converted arguments.\<close>

datatype command =
    Post pystr
  | Timeline int bool
  | Reply pystr pystr
  | Like pystr
  | Thread pystr
  | Search pystr int
  | Profile "pystr option"
  | Whoami
  | Logout





section \<open>Vocabulary of the properties\<close>

text \<open>
  The session string \<open>get_client\<close> tries to log in with: the loaded one, unless loading
  raised, nothing was loaded or it is empty. Whether the first \<open>try\<close> block raises for it:
  the login raises, or it succeeds and saving the session raises. The requests a run added
  to the log.
\<close>

definition session_attempt :: "world \<Rightarrow> pystr option" where
  "session_attempt w =
     (case load_session w of
        Inr (Some s) \<Rightarrow> if s = [] then None else Some s
      | _ \<Rightarrow> None)"

definition try_fails :: "remote \<Rightarrow> world \<Rightarrow> pystr \<Rightarrow> bool" where
  "try_fails r w s =
     (case login_session r s of
        Inl _ \<Rightarrow> True
      | Inr _ \<Rightarrow> (case write_raises w of None \<Rightarrow> False | Some _ \<Rightarrow> True))"

definition new_calls :: "world \<Rightarrow> world \<Rightarrow> (call \<times> bool) list" where
  "new_calls w w' = drop (length (calls w)) (calls w')"

text \<open>
  The two halves of \<open>get_client\<close>, named so that each can be reasoned about alone: the
  attempt on the cached session with its handler, and the fresh login. Lemma
  \<open>get_client_split\<close> shows that \<open>get_client\<close> is the first followed, when it yields no client
  and raises nothing, by the second.
\<close>

definition restore :: "remote \<Rightarrow> world \<Rightarrow> (exn + client option) \<times> world" where
  "restore r w =
     (case load_session w of
        Inl ex \<Rightarrow> (Inl ex, w)
      | Inr _ \<Rightarrow>
          (case session_attempt w of
             None \<Rightarrow> (Inr None, w)
           | Some s \<Rightarrow>
               (if try_fails r w s then
                  (case clear_session (request (LoginSession s) (\<not> isl (login_session r s)) w) of
                     Inl ex \<Rightarrow> (Inl ex, request (LoginSession s) (\<not> isl (login_session r s)) w)
                   | Inr w' \<Rightarrow> (Inr None, w'))
                else
                  (Inr (Some (projr (login_session r s))),
                   (request (LoginSession s) True w)
                     \<lparr>session_file := Some (export_session_string (projr (login_session r s)))\<rparr>))))"

definition fresh_login :: "remote \<Rightarrow> env \<Rightarrow> world \<Rightarrow> client outcome \<times> world" where
  "fresh_login r e w =
     (if py_not (BLUESKY_HANDLE e) \<or> py_not (BLUESKY_APP_PASSWORD e) then
        (SysExit 1,
         echo_err (lit ''Error: BLUESKY_HANDLE and BLUESKY_APP_PASSWORD must be set'') w)
      else
        (case login_password r (the (BLUESKY_HANDLE e)) (the (BLUESKY_APP_PASSWORD e)) of
           Inl ex \<Rightarrow>
             except_AtProtocolError (lit ''Login failed: '') ex
               (request (LoginPassword (the (BLUESKY_HANDLE e)) (the (BLUESKY_APP_PASSWORD e))) False w)
         | Inr c \<Rightarrow>
             (case save_session c
                     (request (LoginPassword (the (BLUESKY_HANDLE e)) (the (BLUESKY_APP_PASSWORD e))) True w) of
                Inl ex \<Rightarrow>
                  except_AtProtocolError (lit ''Login failed: '') ex
                    (request (LoginPassword (the (BLUESKY_HANDLE e)) (the (BLUESKY_APP_PASSWORD e))) True w)
              | Inr w2 \<Rightarrow>
                  (Return c,
                   echo_err (check_mark @ lit '' Logged in as @'' @ me_handle c @ lit '' (session cached)'')
                     w2))))"

text \<open>\<open>s.split("\n")\<close>: the lines of a string.\<close>

fun split_lines :: "pystr \<Rightarrow> pystr list" where
  "split_lines [] = [[]]"
| "split_lines (c # cs) =
     (if c = 10 then [] # split_lines cs
      else (case split_lines cs of [] \<Rightarrow> [[c]] | l # ls \<Rightarrow> (c # l) # ls))"

text \<open>
  The content requests among those a run added; whether a library call returned; whether a
  function returned; a logged request that failed and was not the login with the cached
  session; a log with a failure that was not recovered from (a failed fresh login or
  content request, or a last request that failed); the local validation of \<open>post\<close> and
  \<open>reply\<close>; the subcommands that obtain a client.
\<close>

definition content_calls :: "world \<Rightarrow> world \<Rightarrow> (call \<times> bool) list" where
  "content_calls w w' = filter (\<lambda>x. \<not> is_login (fst x)) (new_calls w w')"

definition succeeded :: "exn + 'a \<Rightarrow> bool" where
  "succeeded x = (case x of Inl _ \<Rightarrow> False | Inr _ \<Rightarrow> True)"


definition failed_request :: "call \<times> bool \<Rightarrow> bool" where
  "failed_request x = (\<not> snd x \<and> \<not> is_session_login (fst x))"

definition unrecovered :: "(call \<times> bool) list \<Rightarrow> bool" where
  "unrecovered ns = (list_ex failed_request ns \<or> (ns \<noteq> [] \<and> \<not> snd (last ns)))"



text \<open>
  The invariant of every run started in world \<open>w\<close>: the log only grows; a run that returns
  has no failure that was not recovered from; \<open>sys.exit\<close> is only ever called with 1.
\<close>

definition good_run :: "world \<Rightarrow> 'a outcome \<times> world \<Rightarrow> bool" where
  "good_run w m =
     (take (length (calls w)) (calls (snd m)) = calls w \<and>
      (case fst m of
         Return _ \<Rightarrow> \<not> unrecovered (new_calls w (snd m))
       | SysExit n \<Rightarrow> n = 1
       | Raise _ \<Rightarrow> True))"

text \<open>
  The post that \<open>reply\<close> and \<open>like\<close> read from the fetched thread, the reply reference built
  from it, and the two entries \<open>thread\<close> echoes for one reply.
\<close>

definition fetched_post :: "remote \<Rightarrow> client \<Rightarrow> pystr \<Rightarrow> post_view option" where
  "fetched_post r c post_uri =
     (case get_post_thread r c post_uri of Inl _ \<Rightarrow> None | Inr node \<Rightarrow> node_post node)"

definition reply_to_post :: "post_view \<Rightarrow> reply_ref" where
  "reply_to_post parent =
     \<lparr>root_uri = uri parent, root_cid = cid parent,
      parent_uri = uri parent, parent_cid = cid parent\<rparr>"

definition reply_lines :: "post_view \<Rightarrow> pystr list" where
  "reply_lines q =
     [lit ''@'' @ handle (author q) @ lit '': '' @ take 100 (record_text (record_of q)), []]"

section \<open>Sample inputs\<close>

text \<open>
  A remote that accepts the session string \<open>token-1\<close> and the credentials
  \<open>alice.test\<close> / \<open>app-pw\<close>, rejects every other login, answers content requests with one
  post and fails \<open>get_profile\<close>; worlds with a given session file and a working file system;
  environments with and without credentials.
\<close>

definition alice :: client where
  "alice = \<lparr>me_handle = lit ''alice.test'', me_did = lit ''did:plc:alice'',
             session_string = lit ''token-2''\<rparr>"

definition demo_post :: post_view where
  "demo_post =
     \<lparr>uri = lit ''at://alice.test/post/1'', cid = lit ''cid1'',
      author = \<lparr>handle = lit ''alice.test'', display_name = None\<rparr>,
      record_of = \<lparr>record_text = lit ''hello'',
                   created_at = StrCreated (lit ''2024-01-02T03:04:05Z'')\<rparr>,
      like_count = Some 3, repost_count = None, reply_count = Some 0\<rparr>"

definition bob_post :: post_view where
  "bob_post =
     \<lparr>uri = lit ''at://bob.test/post/9'', cid = lit ''cid9'',
      author = \<lparr>handle = lit ''bob.test'', display_name = Some (lit ''Bob'')\<rparr>,
      record_of = \<lparr>record_text = lit ''hi there'', created_at = StrCreated (lit ''yesterday'')\<rparr>,
      like_count = Some 12, repost_count = Some 0, reply_count = None\<rparr>"

definition demo_remote :: remote where
  "demo_remote =
     \<lparr>login_session =
        (\<lambda>s. if s = lit ''token-1'' then Inr alice else Inl (AtProtocolError (lit ''ExpiredToken''))),
      login_password =
        (\<lambda>h p. if h = lit ''alice.test'' \<and> p = lit ''app-pw'' then Inr alice
               else Inl (AtProtocolError (lit ''AuthenticationRequired''))),
      send_post = (\<lambda>c t rr. Inr (lit ''at://alice.test/post/2'')),
      get_timeline = (\<lambda>c n. Inr [\<lparr>item_post = demo_post\<rparr>]),
      get_post_thread = (\<lambda>c u. Inr (ThreadViewPost demo_post None None)),
      like_post = (\<lambda>c u k. Inr ()),
      search_posts = (\<lambda>c q n. Inr [demo_post]),
      get_profile = (\<lambda>c h. Inl (AtProtocolError (lit ''Profile not found'')))\<rparr>"

definition demo_world :: "pystr option \<Rightarrow> world" where
  "demo_world content =
     \<lparr>session_file = content, read_raises = None, write_raises = None, unlink_raises = None,
      session_path = lit ''/home/alice/.cache/bsky/session.txt'',
      stdout = [], stderr = [], calls = []\<rparr>"

definition demo_env :: env where
  "demo_env = \<lparr>BLUESKY_HANDLE = Some (lit ''alice.test''),
                BLUESKY_APP_PASSWORD = Some (lit ''app-pw'')\<rparr>"

definition no_env :: env where
  "no_env = \<lparr>BLUESKY_HANDLE = None, BLUESKY_APP_PASSWORD = None\<rparr>"

definition demo_strftime :: "pystr \<Rightarrow> pystr option" where
  "demo_strftime s =
     (if s = lit ''2024-01-02T03:04:05+00:00'' then Some (lit ''2024-01-02 03:04'') else None)"

text \<open>
  Worlds whose file system refuses: a session path that is a directory, so that reading it
  raises \<open>IsADirectoryError\<close> (an \<open>OSError\<close>); a session file that is not UTF-8; a valid
  session file that cannot be written; a stale session file that cannot be removed.
\<close>

definition unreadable_world :: world where
  "unreadable_world =
     (demo_world (Some (lit ''stale'')))\<lparr>read_raises := Some (OSError (lit ''Is a directory''))\<rparr>"

definition undecodable_world :: world where
  "undecodable_world =
     (demo_world (Some (lit ''stale'')))
       \<lparr>read_raises := Some (UnicodeDecodeError (lit ''invalid start byte''))\<rparr>"

definition read_only_world :: world where
  "read_only_world =
     (demo_world (Some (lit ''token-1'')))\<lparr>write_raises := Some (OSError (lit ''Read-only file system''))\<rparr>"

definition undeletable_world :: world where
  "undeletable_world =
     (demo_world (Some (lit ''stale'')))\<lparr>unlink_raises := Some (OSError (lit ''Permission denied''))\<rparr>"

text \<open>A thread with twelve replies: one not found, eleven of 120 code points each.\<close>

definition long_post :: post_view where
  "long_post =
     \<lparr>uri = lit ''at://bob.test/post/7'', cid = lit ''cid7'',
      author = \<lparr>handle = lit ''bob.test'', display_name = Some (lit ''Bob'')\<rparr>,
      record_of = \<lparr>record_text = replicate 120 98,
                   created_at = StrCreated (lit ''yesterday'')\<rparr>,
      like_count = None, repost_count = None, reply_count = None\<rparr>"

definition busy_remote :: remote where
  "busy_remote =
     demo_remote\<lparr>get_post_thread :=
       (\<lambda>c u. Inr (ThreadViewPost demo_post None
                     (Some (NotFoundPost # replicate 11 (ThreadViewPost long_post None None)))))\<rparr>"



section \<open>Properties\<close>

subsection \<open>The session manager\<close>

lemma world_fields [simp]:
  "calls (echo s w) = calls w" "session_file (echo s w) = session_file w"
  "stderr (echo s w) = stderr w" "stdout (echo s w) = stdout w @ [s]"
  "read_raises (echo s w) = read_raises w" "write_raises (echo s w) = write_raises w"
  "unlink_raises (echo s w) = unlink_raises w"
  "calls (echo_err s w) = calls w" "session_file (echo_err s w) = session_file w"
  "stderr (echo_err s w) = stderr w @ [s]" "stdout (echo_err s w) = stdout w"
  "read_raises (echo_err s w) = read_raises w" "write_raises (echo_err s w) = write_raises w"
  "unlink_raises (echo_err s w) = unlink_raises w"
  "calls (request c ok w) = calls w @ [(c, ok)]" "session_file (request c ok w) = session_file w"
  "stderr (request c ok w) = stderr w" "stdout (request c ok w) = stdout w"
  "read_raises (request c ok w) = read_raises w" "write_raises (request c ok w) = write_raises w"
  "unlink_raises (request c ok w) = unlink_raises w"
  by (simp_all add: echo_def echo_err_def request_def)

lemma session_exists_fields [simp]:
  "session_exists (echo s w) = session_exists w"
  "session_exists (echo_err s w) = session_exists w"
  "session_exists (request c ok w) = session_exists w"
  "session_exists (w\<lparr>session_file := Some t\<rparr>)"
  "\<not> session_exists (w\<lparr>session_file := None\<rparr>)"
  by (simp_all add: session_exists_def)

lemma save_session_eq:
  "save_session c w =
     (case write_raises w of
        Some ex \<Rightarrow> Inl ex
      | None \<Rightarrow> Inr (w\<lparr>session_file := Some (export_session_string c)\<rparr>))"
  by (simp add: save_session_def write_text_def)

lemma session_attempt_exists: "session_attempt w = Some s \<Longrightarrow> session_exists w"
  by (auto simp: session_attempt_def load_session_def split: if_splits sum.splits option.splits)



lemma clear_session_eq:
  "session_exists w \<Longrightarrow>
   clear_session w =
     (case unlink_raises w of Some ex \<Rightarrow> Inl ex | None \<Rightarrow> Inr (w\<lparr>session_file := None\<rparr>))"
  by (auto simp: clear_session_def unlink_def session_exists_def split: option.splits)

lemma get_client_split:
  "get_client r e w =
     (case restore r w of
        (Inl ex, w1) \<Rightarrow> (Raise ex, w1)
      | (Inr (Some c), w1) \<Rightarrow> (Return c, w1)
      | (Inr None, w1) \<Rightarrow> fresh_login r e w1)"
proof (cases "load_session w")
  case (Inl ex)
  then show ?thesis by (simp add: get_client_def restore_def)
next
  case (Inr loaded)
  show ?thesis
  proof (cases "session_attempt w")
    case None
    with Inr have "loaded = None \<or> loaded = Some []"
      by (auto simp: session_attempt_def split: option.splits if_splits)
    with Inr None show ?thesis
      by (auto simp: get_client_def restore_def fresh_login_def Let_def)
  next
    case (Some s)
    then have ld: "load_session w = Inr (Some s)" and ne: "s \<noteq> []"
      by (auto simp: session_attempt_def split: if_splits sum.splits option.splits)
    note defs = get_client_def restore_def fresh_login_def Let_def ld ne Some try_fails_def
      save_session_eq
    show ?thesis
    proof (cases "login_session r s")
      case (Inl x)
      show ?thesis
        by (cases "clear_session (request (LoginSession s) False w)") (simp_all add: defs Inl)
    next
      case login: (Inr c)
      show ?thesis
      proof (cases "write_raises w")
        case None
        then show ?thesis by (simp add: defs login)
      next
        case (Some ex)
        then show ?thesis
          by (cases "clear_session (request (LoginSession s) True w)") (simp_all add: defs login)
      qed
    qed
  qed
qed


lemma restore_cases:
  obtains (raised) ex where "load_session w = Inl ex" "session_attempt w = None"
      "restore r w = (Inl ex, w)"
  | (none) x where "load_session w = Inr x" "session_attempt w = None" "restore r w = (Inr None, w)"
  | (failed) s where "session_attempt w = Some s" "try_fails r w s" "unlink_raises w = None"
      "restore r w =
         (Inr None,
          (request (LoginSession s) (\<not> isl (login_session r s)) w)\<lparr>session_file := None\<rparr>)"
  | (stuck) s ex where "session_attempt w = Some s" "try_fails r w s" "unlink_raises w = Some ex"
      "restore r w = (Inl ex, request (LoginSession s) (\<not> isl (login_session r s)) w)"
  | (accepted) s c where "session_attempt w = Some s" "login_session r s = Inr c"
      "write_raises w = None"
      "restore r w =
         (Inr (Some c),
          (request (LoginSession s) True w)\<lparr>session_file := Some (export_session_string c)\<rparr>)"
proof (cases "load_session w")
  case (Inl ex)
  then show ?thesis using raised by (simp add: restore_def session_attempt_def)
next
  case (Inr x)
  show ?thesis
  proof (cases "session_attempt w")
    case None
    then show ?thesis using none Inr by (simp add: restore_def)
  next
    case (Some s)
    note ex = session_attempt_exists [OF Some]
    show ?thesis
    proof (cases "try_fails r w s")
      case True
      show ?thesis
      proof (cases "unlink_raises w")
        case None
        then show ?thesis
          using failed [OF Some True None] Inr Some True
          by (simp add: restore_def clear_session_eq ex)
      next
        case unl: (Some ex')
        then show ?thesis
          using stuck [OF Some True unl] Inr Some True
          by (simp add: restore_def clear_session_eq ex)
      qed
    next
      case False
      then obtain c where c: "login_session r s = Inr c" and wr: "write_raises w = None"
        by (auto simp: try_fails_def split: sum.splits option.splits)
      then show ?thesis
        using accepted [OF Some c wr] Inr Some False
        by (simp add: restore_def)
    qed
  qed
qed

lemma fresh_login_missing:
  "py_not (BLUESKY_HANDLE e) \<or> py_not (BLUESKY_APP_PASSWORD e) \<Longrightarrow>
   fresh_login r e w =
     (SysExit 1, echo_err (lit ''Error: BLUESKY_HANDLE and BLUESKY_APP_PASSWORD must be set'') w)"
  by (simp add: fresh_login_def)

lemma fresh_login_Inl:
  "\<not> py_not (BLUESKY_HANDLE e) \<Longrightarrow> \<not> py_not (BLUESKY_APP_PASSWORD e) \<Longrightarrow>
   login_password r (the (BLUESKY_HANDLE e)) (the (BLUESKY_APP_PASSWORD e)) = Inl x \<Longrightarrow>
   fresh_login r e w =
     except_AtProtocolError (lit ''Login failed: '') x
       (request (LoginPassword (the (BLUESKY_HANDLE e)) (the (BLUESKY_APP_PASSWORD e))) False w)"
  by (simp add: fresh_login_def)

lemma fresh_login_saved:
  "\<not> py_not (BLUESKY_HANDLE e) \<Longrightarrow> \<not> py_not (BLUESKY_APP_PASSWORD e) \<Longrightarrow>
   login_password r (the (BLUESKY_HANDLE e)) (the (BLUESKY_APP_PASSWORD e)) = Inr c \<Longrightarrow>
   write_raises w = None \<Longrightarrow>
   fresh_login r e w =
     (Return c,
      echo_err (check_mark @ lit '' Logged in as @'' @ me_handle c @ lit '' (session cached)'')
        ((request (LoginPassword (the (BLUESKY_HANDLE e)) (the (BLUESKY_APP_PASSWORD e))) True w)
           \<lparr>session_file := Some (export_session_string c)\<rparr>))"
  by (simp add: fresh_login_def save_session_eq)

lemma fresh_login_unsaved:
  "\<not> py_not (BLUESKY_HANDLE e) \<Longrightarrow> \<not> py_not (BLUESKY_APP_PASSWORD e) \<Longrightarrow>
   login_password r (the (BLUESKY_HANDLE e)) (the (BLUESKY_APP_PASSWORD e)) = Inr c \<Longrightarrow>
   write_raises w = Some ex \<Longrightarrow>
   fresh_login r e w =
     except_AtProtocolError (lit ''Login failed: '') ex
       (request (LoginPassword (the (BLUESKY_HANDLE e)) (the (BLUESKY_APP_PASSWORD e))) True w)"
  by (simp add: fresh_login_def save_session_eq)

lemma except_AtProtocolError_snd [simp]:
  "calls (snd (except_AtProtocolError prefix x w)) = calls w"
  "session_file (snd (except_AtProtocolError prefix x w)) = session_file w"
  "stdout (snd (except_AtProtocolError prefix x w)) = stdout w"
  by (cases x; simp add: except_AtProtocolError_def)+


lemma except_AtProtocolError_not_Return [simp]:
  "fst (except_AtProtocolError prefix x w) \<noteq> Return y"
  by (cases x) (simp_all add: except_AtProtocolError_def)

lemma except_AtProtocolError_exit_code [simp]:
  "exit_code (fst (except_AtProtocolError prefix x w)) = 1"
  by (cases x) (simp_all add: except_AtProtocolError_def)


lemma fresh_login_Return:
  assumes "fresh_login r e w = (Return c, w')"
  shows "session_file w' = Some (export_session_string c)"
proof (cases "py_not (BLUESKY_HANDLE e) \<or> py_not (BLUESKY_APP_PASSWORD e)")
  case True
  with assms show ?thesis by (simp add: fresh_login_missing)
next
  case False
  then have creds: "\<not> py_not (BLUESKY_HANDLE e)" "\<not> py_not (BLUESKY_APP_PASSWORD e)"
    by simp_all
  show ?thesis
  proof (cases "login_password r (the (BLUESKY_HANDLE e)) (the (BLUESKY_APP_PASSWORD e))")
    case (Inl x)
    with assms show ?thesis
      using except_AtProtocolError_not_Return
      by (metis fresh_login_Inl [OF creds Inl] fst_conv)
  next
    case (Inr c')
    show ?thesis
    proof (cases "write_raises w")
      case None
      with assms show ?thesis by (auto simp: fresh_login_saved [OF creds Inr None])
    next
      case (Some ex)
      with assms show ?thesis
        using except_AtProtocolError_not_Return
        by (metis fresh_login_unsaved [OF creds Inr Some] fst_conv)
    qed
  qed
qed


text \<open>
  Claim C9. Whenever \<open>get_client\<close> returns a client, the session file exists and holds the
  session string that client exports.
\<close>

theorem get_client_session_persisted:
  assumes "get_client r e w = (Return c, w')"
  shows "session_file w' = Some (export_session_string c) \<and> session_exists w'"
proof -
  have persisted: "session_file w' = Some (export_session_string c)"
  proof (cases rule: restore_cases [of w r])
    case (raised ex)
    with assms show ?thesis by (simp add: get_client_split)
  next
    case (none x)
    with assms have "fresh_login r e w = (Return c, w')" by (simp add: get_client_split)
    then show ?thesis by (rule fresh_login_Return)
  next
    case (failed s)
    with assms have "fresh_login r e
        ((request (LoginSession s) (\<not> isl (login_session r s)) w)\<lparr>session_file := None\<rparr>) =
        (Return c, w')"
      by (simp add: get_client_split)
    then show ?thesis by (rule fresh_login_Return)
  next
    case (stuck s ex)
    with assms show ?thesis by (simp add: get_client_split)
  next
    case (accepted s c')
    with assms show ?thesis by (auto simp: get_client_split)
  qed
  then show ?thesis by (simp add: session_exists_def)
qed


text \<open>Facts about the sample inputs.\<close>

lemmas demo_defs =
  demo_world_def demo_remote_def demo_env_def no_env_def alice_def lit_def
  session_attempt_def load_session_def read_text_def session_exists_def strip_def isspace_def
  py_not_def check_mark_def export_session_string_def
  unreadable_world_def undecodable_world_def undeletable_world_def read_only_world_def






lemma missing_no_env: "py_not (BLUESKY_HANDLE no_env) \<or> py_not (BLUESKY_APP_PASSWORD no_env)"
  by (simp add: no_env_def py_not_def)

lemma demo_creds:
  "\<not> py_not (BLUESKY_HANDLE demo_env)" "\<not> py_not (BLUESKY_APP_PASSWORD demo_env)"
  "the (BLUESKY_HANDLE demo_env) = lit ''alice.test''"
  "the (BLUESKY_APP_PASSWORD demo_env) = lit ''app-pw''"
  "login_password demo_remote (lit ''alice.test'') (lit ''app-pw'') = Inr alice"
  "export_session_string alice = lit ''token-2''"
  by (simp_all add: demo_defs)





lemma demo_fresh_ok:
  "get_client demo_remote demo_env (demo_world None) =
     (Return alice,
      echo_err (check_mark @ lit '' Logged in as @'' @ me_handle alice @ lit '' (session cached)'')
        ((request (LoginPassword (lit ''alice.test'') (lit ''app-pw'')) True (demo_world None))
           \<lparr>session_file := Some (export_session_string alice)\<rparr>))"
proof -
  have "load_session (demo_world None) = Inr None"
    by (simp add: demo_defs)
  then have none: "restore demo_remote (demo_world None) = (Inr None, demo_world None)"
    by (simp add: restore_def session_attempt_def)
  have ok: "login_password demo_remote (the (BLUESKY_HANDLE demo_env))
              (the (BLUESKY_APP_PASSWORD demo_env)) = Inr alice"
    by (simp add: demo_creds)
  have wr: "write_raises (demo_world None) = None"
    by (simp add: demo_world_def)
  show ?thesis
    by (simp add: get_client_split none fresh_login_saved [OF demo_creds(1,2) ok wr] demo_creds)
qed


text \<open>
  When the login with the cached session succeeds but the session cannot be saved, the
  handler of the first \<open>try\<close> deletes the file and \<open>get_client\<close> goes on to the
  credentials: without them it exits, with them it logs in again, and the second failure
  to save leaves \<open>get_client\<close> as an exception.
\<close>

lemma get_client_unsaved_session:
  "load_session read_only_world = Inr (Some (lit ''token-1'')) \<and>
   login_session demo_remote (lit ''token-1'') = Inr alice \<and>
   fst (get_client demo_remote no_env read_only_world) = SysExit 1 \<and>
   calls (snd (get_client demo_remote no_env read_only_world)) =
     [(LoginSession (lit ''token-1''), True)] \<and>
   session_file (snd (get_client demo_remote no_env read_only_world)) = None \<and>
   fst (get_client demo_remote demo_env read_only_world) = Raise (OSError (lit ''Read-only file system'')) \<and>
   calls (snd (get_client demo_remote demo_env read_only_world)) =
     [(LoginSession (lit ''token-1''), True),
      (LoginPassword (lit ''alice.test'') (lit ''app-pw''), True)] \<and>
   session_file (snd (get_client demo_remote demo_env read_only_world)) = None"
proof -
  have load: "load_session read_only_world = Inr (Some (lit ''token-1''))"
    and att: "session_attempt read_only_world = Some (lit ''token-1'')"
    by (simp_all add: demo_defs)
  have ok: "login_session demo_remote (lit ''token-1'') = Inr alice"
    by (simp add: demo_defs)
  have fs: "write_raises read_only_world = Some (OSError (lit ''Read-only file system''))"
    "unlink_raises read_only_world = None" "session_exists read_only_world"
    "calls read_only_world = []"
    by (simp_all add: demo_defs)
  have rs: "restore demo_remote read_only_world =
      (Inr None,
       (request (LoginSession (lit ''token-1'')) True read_only_world)\<lparr>session_file := None\<rparr>)"
    by (simp add: restore_def load att try_fails_def ok fs clear_session_eq)
  have pw: "login_password demo_remote (the (BLUESKY_HANDLE demo_env))
      (the (BLUESKY_APP_PASSWORD demo_env)) = Inr alice"
    by (simp add: demo_creds)
  have without: "get_client demo_remote no_env read_only_world =
      (SysExit 1,
       echo_err (lit ''Error: BLUESKY_HANDLE and BLUESKY_APP_PASSWORD must be set'')
         ((request (LoginSession (lit ''token-1'')) True read_only_world)\<lparr>session_file := None\<rparr>))"
    by (simp add: get_client_split rs fresh_login_missing [OF missing_no_env])
  have again: "get_client demo_remote demo_env read_only_world =
      (Raise (OSError (lit ''Read-only file system'')),
       request (LoginPassword (lit ''alice.test'') (lit ''app-pw'')) True
         ((request (LoginSession (lit ''token-1'')) True read_only_world)\<lparr>session_file := None\<rparr>))"
    by (simp add: get_client_split rs
        fresh_login_unsaved [OF demo_creds(1,2) pw, where ex = "OSError (lit ''Read-only file system'')"]
        fs demo_creds except_AtProtocolError_def)
  show ?thesis
    unfolding without again by (simp add: load ok fs)
qed

theorem get_client_session_persisted_witness:
  "fst (get_client demo_remote demo_env (demo_world None)) = Return alice \<and>
   session_file (snd (get_client demo_remote demo_env (demo_world None))) = Some (lit ''token-2'') \<and>
   session_exists (snd (get_client demo_remote demo_env (demo_world None)))"
proof -
  have run: "get_client demo_remote demo_env (demo_world None) =
               (Return alice, snd (get_client demo_remote demo_env (demo_world None)))"
    by (simp add: demo_fresh_ok)
  show ?thesis
    using get_client_session_persisted [OF run] by (simp add: demo_fresh_ok demo_creds)
qed




subsection \<open>Logout, local validation and formatting\<close>





text \<open>
  Claim C2. For every text of more than 300 code points, \<open>post\<close> and \<open>reply\<close> end with
  \<open>sys.exit(1)\<close> after one message on the error stream; nothing else in the world has
  changed, so no client was obtained, no request was sent and the session file is as before.
\<close>

theorem oversized_text_rejected_locally:
  assumes "length text > 300"
  shows "post r e text w =
           (SysExit 1,
            w\<lparr>stderr := stderr w @
                 [lit ''Error: Post too long ('' @ str_nat (length text) @ lit '' chars, max 300)'']\<rparr>) \<and>
         reply r e post_uri text w =
           (SysExit 1,
            w\<lparr>stderr := stderr w @
                 [lit ''Error: Reply too long ('' @ str_nat (length text) @ lit '' chars, max 300)'']\<rparr>) \<and>
         calls (snd (post r e text w)) = calls w \<and>
         calls (snd (reply r e post_uri text w)) = calls w \<and>
         session_file (snd (post r e text w)) = session_file w \<and>
         session_file (snd (reply r e post_uri text w)) = session_file w"
  using assms by (simp add: post_def reply_def echo_err_def)

theorem oversized_text_rejected_locally_witness:
  "length (replicate 301 (97::nat)) > 300 \<and>
   post demo_remote demo_env (replicate 301 97) (demo_world None) =
     (SysExit 1,
      (demo_world None)\<lparr>stderr := [lit ''Error: Post too long (301 chars, max 300)'']\<rparr>) \<and>
   reply demo_remote demo_env (lit ''at://x'') (replicate 301 97) (demo_world None) =
     (SysExit 1,
      (demo_world None)\<lparr>stderr := [lit ''Error: Reply too long (301 chars, max 300)'']\<rparr>) \<and>
   calls (snd (post demo_remote demo_env (replicate 301 97) (demo_world None))) = []"
proof -
  have long: "length (replicate 301 (97::nat)) > 300" by simp
  have shown: "str_nat 301 = lit ''301''" by (simp add: str_nat.simps lit_def)
  have empty: "stderr (demo_world None) = []" "calls (demo_world None) = []"
    by (simp_all add: demo_world_def)
  show ?thesis
    using oversized_text_rejected_locally [OF long, of demo_remote demo_env "demo_world None" "lit ''at://x''"]
    by (simp add: shown empty lit_def)
qed

lemma split_lines_line: "10 \<notin> set a \<Longrightarrow> split_lines (a @ 10 # b) = a # split_lines b"
  by (induction a) auto

lemma split_lines_last: "10 \<notin> set a \<Longrightarrow> split_lines a = [a]"
  by (induction a) auto

lemma layout_lines:
  assumes "out = a @ [10] @ b @ [10] @ c @ [10] @ d @ (if su then [10] @ u else [])"
    and "10 \<notin> set a" and "10 \<notin> set b" and "10 \<notin> set c" and "10 \<notin> set d"
    and "10 \<notin> set u"
  shows "split_lines out = [a, b, c, d] @ (if su then [u] else [])"
  using assms by (cases su) (simp_all add: split_lines_line split_lines_last)

lemma str_nat_no_newline: "10 \<notin> set (str_nat n)"
proof (induction n rule: str_nat.induct)
  case (1 n)
  show ?case
  proof (cases "n < 10")
    case True
    then show ?thesis by (subst str_nat.simps) simp
  next
    case False
    with 1 show ?thesis by (subst str_nat.simps) simp
  qed
qed

lemma str_int_no_newline: "10 \<notin> set (str_int i)"
  by (simp add: str_int_def str_nat_no_newline lit_def)

text \<open>
  Claim C7. \<open>format_post\<close> renders, separated by newlines and in this order: the author line
  (the handle, then in parentheses the display name, or the handle when there is no display
  name or it is empty), the post text, the timestamp, the engagement counts (likes, reposts,
  replies, each 0 when absent), and the URI line only when \<open>show_uri\<close> is set. When none of
  handle, display name, text, timestamp and URI holds a newline, these are exactly the lines
  of the output.
\<close>

theorem format_post_layout:
  "(let p = item_post item;
        name = (case display_name (author p) of
                  None \<Rightarrow> handle (author p)
                | Some d \<Rightarrow> if d = [] then handle (author p) else d);
        author_line = lit ''@'' @ handle (author p) @ lit '' ('' @ name @ lit '')'';
        text_line = lit ''  '' @ record_text (record_of p);
        time_line = lit ''  '' @
          (case created_at (record_of p) of
             StrCreated s \<Rightarrow> (case strftime_iso (replace_Z s) of Some t \<Rightarrow> t | None \<Rightarrow> s)
           | OtherCreated shown \<Rightarrow> shown);
        likes = (case like_count p of None \<Rightarrow> 0 | Some n \<Rightarrow> n);
        reposts = (case repost_count p of None \<Rightarrow> 0 | Some n \<Rightarrow> n);
        replies = (case reply_count p of None \<Rightarrow> 0 | Some n \<Rightarrow> n);
        stats_line = lit ''  '' @ heart @ lit '' '' @ str_int likes @ lit ''  '' @ repost_sign @
                     lit '' '' @ str_int reposts @ lit ''  '' @ speech_balloon @ lit '' '' @
                     str_int replies;
        uri_line = lit ''  URI: '' @ uri p
    in
      format_post strftime_iso item show_uri =
        author_line @ [10] @ text_line @ [10] @ time_line @ [10] @ stats_line @
        (if show_uri then [10] @ uri_line else []) \<and>
      (10 \<notin> set author_line \<and> 10 \<notin> set text_line \<and> 10 \<notin> set time_line \<and> 10 \<notin> set uri_line \<longrightarrow>
         split_lines (format_post strftime_iso item show_uri) =
           [author_line, text_line, time_line, stats_line] @ (if show_uri then [uri_line] else [])))"
proof -
  have counts: "or_int x 0 = (case x of None \<Rightarrow> 0 | Some n \<Rightarrow> n)" for x
    by (simp add: or_int_def split: option.split)
  have name: "or_str x y = (case x of None \<Rightarrow> y | Some d \<Rightarrow> if d = [] then y else d)" for x y
    by (simp add: or_str_def)
  have nl: "lit [CHR 0x0A] = [10]" by (simp add: lit_def)
  have stats: "10 \<notin> set (lit ''  '' @ heart @ lit '' '' @ str_int a @ lit ''  '' @ repost_sign @
                     lit '' '' @ str_int b @ lit ''  '' @ speech_balloon @ lit '' '' @ str_int c)"
    for a b c
    by (simp add: str_int_no_newline lit_def heart_def repost_sign_def speech_balloon_def)
  have layout: "format_post strftime_iso item show_uri =
      (lit ''@'' @ handle (author (item_post item)) @ lit '' ('' @
         (case display_name (author (item_post item)) of
            None \<Rightarrow> handle (author (item_post item))
          | Some d \<Rightarrow> if d = [] then handle (author (item_post item)) else d) @ lit '')'') @ [10] @
      (lit ''  '' @ record_text (record_of (item_post item))) @ [10] @
      (lit ''  '' @
         (case created_at (record_of (item_post item)) of
            StrCreated s \<Rightarrow> (case strftime_iso (replace_Z s) of Some t \<Rightarrow> t | None \<Rightarrow> s)
          | OtherCreated shown \<Rightarrow> shown)) @ [10] @
      (lit ''  '' @ heart @ lit '' '' @
         str_int (case like_count (item_post item) of None \<Rightarrow> 0 | Some n \<Rightarrow> n) @ lit ''  '' @
         repost_sign @ lit '' '' @
         str_int (case repost_count (item_post item) of None \<Rightarrow> 0 | Some n \<Rightarrow> n) @ lit ''  '' @
         speech_balloon @ lit '' '' @
         str_int (case reply_count (item_post item) of None \<Rightarrow> 0 | Some n \<Rightarrow> n)) @
      (if show_uri then [10] @ (lit ''  URI: '' @ uri (item_post item)) else [])"
    by (simp add: format_post_def Let_def counts name nl)
  show ?thesis
    unfolding Let_def
  proof (intro conjI impI)
    show "format_post strftime_iso item show_uri =
      (lit ''@'' @ handle (author (item_post item)) @ lit '' ('' @
         (case display_name (author (item_post item)) of
            None \<Rightarrow> handle (author (item_post item))
          | Some d \<Rightarrow> if d = [] then handle (author (item_post item)) else d) @ lit '')'') @ [10] @
      (lit ''  '' @ record_text (record_of (item_post item))) @ [10] @
      (lit ''  '' @
         (case created_at (record_of (item_post item)) of
            StrCreated s \<Rightarrow> (case strftime_iso (replace_Z s) of Some t \<Rightarrow> t | None \<Rightarrow> s)
          | OtherCreated shown \<Rightarrow> shown)) @ [10] @
      (lit ''  '' @ heart @ lit '' '' @
         str_int (case like_count (item_post item) of None \<Rightarrow> 0 | Some n \<Rightarrow> n) @ lit ''  '' @
         repost_sign @ lit '' '' @
         str_int (case repost_count (item_post item) of None \<Rightarrow> 0 | Some n \<Rightarrow> n) @ lit ''  '' @
         speech_balloon @ lit '' '' @
         str_int (case reply_count (item_post item) of None \<Rightarrow> 0 | Some n \<Rightarrow> n)) @
      (if show_uri then [10] @ (lit ''  URI: '' @ uri (item_post item)) else [])"
      by (rule layout)
  next
    assume clean: "10 \<notin> set (lit ''@'' @ handle (author (item_post item)) @ lit '' ('' @
         (case display_name (author (item_post item)) of
            None \<Rightarrow> handle (author (item_post item))
          | Some d \<Rightarrow> if d = [] then handle (author (item_post item)) else d) @ lit '')'') \<and>
      10 \<notin> set (lit ''  '' @ record_text (record_of (item_post item))) \<and>
      10 \<notin> set (lit ''  '' @
         (case created_at (record_of (item_post item)) of
            StrCreated s \<Rightarrow> (case strftime_iso (replace_Z s) of Some t \<Rightarrow> t | None \<Rightarrow> s)
          | OtherCreated shown \<Rightarrow> shown)) \<and>
      10 \<notin> set (lit ''  URI: '' @ uri (item_post item))"
    show "split_lines (format_post strftime_iso item show_uri) =
      [lit ''@'' @ handle (author (item_post item)) @ lit '' ('' @
         (case display_name (author (item_post item)) of
            None \<Rightarrow> handle (author (item_post item))
          | Some d \<Rightarrow> if d = [] then handle (author (item_post item)) else d) @ lit '')'',
       lit ''  '' @ record_text (record_of (item_post item)),
       lit ''  '' @
         (case created_at (record_of (item_post item)) of
            StrCreated s \<Rightarrow> (case strftime_iso (replace_Z s) of Some t \<Rightarrow> t | None \<Rightarrow> s)
          | OtherCreated shown \<Rightarrow> shown),
       lit ''  '' @ heart @ lit '' '' @
         str_int (case like_count (item_post item) of None \<Rightarrow> 0 | Some n \<Rightarrow> n) @ lit ''  '' @
         repost_sign @ lit '' '' @
         str_int (case repost_count (item_post item) of None \<Rightarrow> 0 | Some n \<Rightarrow> n) @ lit ''  '' @
         speech_balloon @ lit '' '' @
         str_int (case reply_count (item_post item) of None \<Rightarrow> 0 | Some n \<Rightarrow> n)] @
      (if show_uri then [lit ''  URI: '' @ uri (item_post item)] else [])"
      by (rule layout_lines [OF layout]) (use clean stats in blast)+
  qed
qed

theorem format_post_layout_witness:
  "format_post demo_strftime \<lparr>item_post = demo_post\<rparr> True =
     lit ''@alice.test (alice.test)'' @ [10] @ lit ''  hello'' @ [10] @ lit ''  2024-01-02 03:04'' @ [10] @
     lit ''  '' @ heart @ lit '' 3  '' @ repost_sign @ lit '' 0  '' @ speech_balloon @ lit '' 0'' @ [10] @
     lit ''  URI: at://alice.test/post/1'' \<and>
   format_post demo_strftime \<lparr>item_post = bob_post\<rparr> False =
     lit ''@bob.test (Bob)'' @ [10] @ lit ''  hi there'' @ [10] @ lit ''  yesterday'' @ [10] @
     lit ''  '' @ heart @ lit '' 12  '' @ repost_sign @ lit '' 0  '' @ speech_balloon @ lit '' 0'' \<and>
   split_lines (format_post demo_strftime \<lparr>item_post = bob_post\<rparr> False) =
     [lit ''@bob.test (Bob)'', lit ''  hi there'', lit ''  yesterday'',
      lit ''  '' @ heart @ lit '' 12  '' @ repost_sign @ lit '' 0  '' @ speech_balloon @ lit '' 0'']"
proof -
  note evals = demo_post_def bob_post_def demo_strftime_def replace_Z_def str_int_def
    str_nat.simps lit_def Let_def
  have first: "format_post demo_strftime \<lparr>item_post = demo_post\<rparr> True =
     lit ''@alice.test (alice.test)'' @ [10] @ lit ''  hello'' @ [10] @ lit ''  2024-01-02 03:04'' @ [10] @
     lit ''  '' @ heart @ lit '' 3  '' @ repost_sign @ lit '' 0  '' @ speech_balloon @ lit '' 0'' @ [10] @
     lit ''  URI: at://alice.test/post/1''"
    using format_post_layout [of "\<lparr>item_post = demo_post\<rparr>" demo_strftime True]
    by (simp add: evals)
  have second: "format_post demo_strftime \<lparr>item_post = bob_post\<rparr> False =
     lit ''@bob.test (Bob)'' @ [10] @ lit ''  hi there'' @ [10] @ lit ''  yesterday'' @ [10] @
     lit ''  '' @ heart @ lit '' 12  '' @ repost_sign @ lit '' 0  '' @ speech_balloon @ lit '' 0'' \<and>
   split_lines (format_post demo_strftime \<lparr>item_post = bob_post\<rparr> False) =
     [lit ''@bob.test (Bob)'', lit ''  hi there'', lit ''  yesterday'',
      lit ''  '' @ heart @ lit '' 12  '' @ repost_sign @ lit '' 0  '' @ speech_balloon @ lit '' 0'']"
    using format_post_layout [of "\<lparr>item_post = bob_post\<rparr>" demo_strftime False]
    by (simp add: evals heart_def repost_sign_def speech_balloon_def)
  from first second show ?thesis by blast
qed

subsection \<open>Exit codes\<close>

lemma foldl_calls:
  "(\<And>w x. calls (g w x) = calls w) \<Longrightarrow> calls (foldl g w0 xs) = calls w0"
  by (induction xs arbitrary: w0) simp_all


lemma fresh_login_log:
  "\<exists>ns. calls (snd (fresh_login r e w1)) = calls w1 @ ns \<and>
        list_all (\<lambda>x. is_login (fst x)) ns \<and>
        (case fst (fresh_login r e w1) of
           Return c \<Rightarrow> ns \<noteq> [] \<and> \<not> unrecovered ns
         | SysExit n \<Rightarrow> n = 1
         | Raise x \<Rightarrow> True)"
proof (cases "py_not (BLUESKY_HANDLE e) \<or> py_not (BLUESKY_APP_PASSWORD e)")
  case True
  then show ?thesis by (simp add: fresh_login_missing)
next
  case False
  then have creds: "\<not> py_not (BLUESKY_HANDLE e)" "\<not> py_not (BLUESKY_APP_PASSWORD e)"
    by simp_all
  show ?thesis
  proof (cases "login_password r (the (BLUESKY_HANDLE e)) (the (BLUESKY_APP_PASSWORD e))")
    case (Inl x)
    show ?thesis
      by (cases x) (simp_all add: fresh_login_Inl [OF creds Inl] except_AtProtocolError_def)
  next
    case (Inr c)
    show ?thesis
    proof (cases "write_raises w1")
      case None
      show ?thesis
        by (simp add: fresh_login_saved [OF creds Inr None] unrecovered_def failed_request_def)
    next
      case (Some x)
      show ?thesis
        by (cases x) (simp_all add: fresh_login_unsaved [OF creds Inr Some] except_AtProtocolError_def)
    qed
  qed
qed

lemma get_client_run:
  "\<exists>ns. calls (snd (get_client r e w)) = calls w @ ns \<and>
        list_all (\<lambda>x. is_login (fst x)) ns \<and>
        (case fst (get_client r e w) of
           Return c \<Rightarrow> \<not> unrecovered ns
         | SysExit n \<Rightarrow> n = 1
         | Raise x \<Rightarrow> True)"
proof (cases rule: restore_cases [of w r])
  case (raised ex)
  then show ?thesis by (simp add: get_client_split)
next
  case (none x)
  then show ?thesis
    using fresh_login_log [of r e w]
    by (auto simp: get_client_split split: outcome.splits)
next
  case (failed s)
  let ?w1 = "(request (LoginSession s) (\<not> isl (login_session r s)) w)\<lparr>session_file := None\<rparr>"
  obtain ns where ns:
    "calls (snd (fresh_login r e ?w1)) = calls ?w1 @ ns"
    "list_all (\<lambda>x. is_login (fst x)) ns"
    "(case fst (fresh_login r e ?w1) of
        Return c \<Rightarrow> ns \<noteq> [] \<and> \<not> unrecovered ns
      | SysExit n \<Rightarrow> n = 1
      | Raise x \<Rightarrow> True)"
    using fresh_login_log [of r e ?w1] by blast
  have gc: "get_client r e w = fresh_login r e ?w1"
    by (simp add: get_client_split failed)
  show ?thesis
    unfolding gc
    by (rule exI [of _ "(LoginSession s, \<not> isl (login_session r s)) # ns"])
       (use ns in \<open>auto simp: unrecovered_def failed_request_def split: outcome.splits\<close>)
next
  case (stuck s ex)
  then show ?thesis by (simp add: get_client_split)
next
  case (accepted s c)
  then show ?thesis by (simp add: get_client_split unrecovered_def failed_request_def)
qed




lemma good_except:
  "take (length (calls w)) (calls w2) = calls w \<Longrightarrow>
   good_run w (except_AtProtocolError prefix x w2)"
  by (cases x) (simp_all add: good_run_def except_AtProtocolError_def)

lemma good_Return:
  "calls w2 = calls w @ ns \<Longrightarrow> \<not> unrecovered ns \<Longrightarrow> good_run w (Return x, w2)"
  by (simp add: good_run_def new_calls_def)

lemma good_Raise:
  "calls w2 = calls w @ ns \<Longrightarrow> good_run w (Raise x, w2)"
  by (simp add: good_run_def)


lemma then_do_Return: "m = (Return x, w1) \<Longrightarrow> then_do m k = k x w1"
  by (simp add: then_do_def)


lemma calls_foldl_show_reply [simp]: "calls (foldl show_reply w rs) = calls w"
  by (rule foldl_calls) (simp add: show_reply_def split: option.split)

lemma calls_foldl_timeline [simp]:
  "calls (foldl (\<lambda>w' item. echo [] (echo (g item) w')) w feed) = calls w"
  by (rule foldl_calls) simp

lemma calls_foldl_search [simp]:
  "calls (foldl (\<lambda>w' p. echo [] (echo (g p) (echo (h p) w'))) w posts) = calls w"
  by (rule foldl_calls) simp


















subsection \<open>Content requests per command\<close>

lemma content_after_client:
  assumes gc: "get_client r e w = (Return c, w1)" and ext: "calls w' = calls w1 @ xs"
  shows "content_calls w w' = filter (\<lambda>x. \<not> is_login (fst x)) xs"
proof -
  obtain ns where ns: "calls (snd (get_client r e w)) = calls w @ ns"
    "list_all (\<lambda>x. is_login (fst x)) ns"
    using get_client_run [of r e w] by blast
  from ns(1) gc have "calls w1 = calls w @ ns" by simp
  with ext have "new_calls w w' = ns @ xs" by (simp add: new_calls_def)
  moreover from ns(2) have "filter (\<lambda>x. \<not> is_login (fst x)) ns = []"
    by (induction ns) simp_all
  ultimately show ?thesis by (simp add: content_calls_def)
qed

lemma post_content:
  assumes gc: "get_client r e w = (Return c, w1)" and short: "length text \<le> 300"
  shows "content_calls w (snd (post r e text w)) =
           [(SendPost text None, succeeded (send_post r c text None))]"
proof -
  have "calls (snd (post r e text w)) =
          calls w1 @ [(SendPost text None, succeeded (send_post r c text None))]"
    using short by (simp add: post_def then_do_Return [OF gc] succeeded_def split: sum.split)
  then show ?thesis by (simp add: content_after_client [OF gc])
qed

lemma timeline_content:
  assumes gc: "get_client r e w = (Return c, w1)"
  shows "content_calls w (snd (timeline f r e limit flag w)) =
           [(GetTimeline limit, succeeded (get_timeline r c limit))]"
proof -
  have "calls (snd (timeline f r e limit flag w)) =
          calls w1 @ [(GetTimeline limit, succeeded (get_timeline r c limit))]"
    by (simp add: timeline_def then_do_Return [OF gc] succeeded_def split: sum.split)
  then show ?thesis by (simp add: content_after_client [OF gc])
qed

lemma thread_content:
  assumes gc: "get_client r e w = (Return c, w1)"
  shows "content_calls w (snd (thread r e post_uri w)) =
           [(GetPostThread post_uri, succeeded (get_post_thread r c post_uri))]"
proof -
  have "calls (snd (thread r e post_uri w)) =
          calls w1 @ [(GetPostThread post_uri, succeeded (get_post_thread r c post_uri))]"
    by (simp add: thread_def then_do_Return [OF gc] succeeded_def Let_def
        split: sum.split option.split)
  then show ?thesis by (simp add: content_after_client [OF gc])
qed

lemma search_content:
  assumes gc: "get_client r e w = (Return c, w1)"
  shows "content_calls w (snd (search r e query limit w)) =
           [(SearchPosts query limit, succeeded (search_posts r c query limit))]"
proof -
  have "calls (snd (search r e query limit w)) =
          calls w1 @ [(SearchPosts query limit, succeeded (search_posts r c query limit))]"
    by (simp add: search_def then_do_Return [OF gc] succeeded_def split: sum.split)
  then show ?thesis by (simp add: content_after_client [OF gc])
qed

lemma profile_content:
  assumes gc: "get_client r e w = (Return c, w1)"
  shows "content_calls w (snd (profile r e handle_arg w)) =
           [(GetProfile (case handle_arg of None \<Rightarrow> me_handle c | Some given \<Rightarrow> given),
             succeeded (get_profile r c
               (case handle_arg of None \<Rightarrow> me_handle c | Some given \<Rightarrow> given)))]"
proof -
  have "calls (snd (profile r e handle_arg w)) =
          calls w1 @
          [(GetProfile (case handle_arg of None \<Rightarrow> me_handle c | Some given \<Rightarrow> given),
            succeeded (get_profile r c
              (case handle_arg of None \<Rightarrow> me_handle c | Some given \<Rightarrow> given)))]"
    by (simp add: profile_def then_do_Return [OF gc] succeeded_def Let_def split: sum.split)
  then show ?thesis by (simp add: content_after_client [OF gc])
qed

lemma reply_content:
  assumes gc: "get_client r e w = (Return c, w1)" and short: "length text \<le> 300"
  shows "content_calls w (snd (reply r e post_uri text w)) =
           (GetPostThread post_uri, succeeded (get_post_thread r c post_uri)) #
           (case fetched_post r c post_uri of
              None \<Rightarrow> []
            | Some parent \<Rightarrow>
                [(SendPost text (Some (reply_to_post parent)),
                  succeeded (send_post r c text (Some (reply_to_post parent))))])"
proof -
  have "calls (snd (reply r e post_uri text w)) =
          calls w1 @
          (GetPostThread post_uri, succeeded (get_post_thread r c post_uri)) #
          (case fetched_post r c post_uri of
             None \<Rightarrow> []
           | Some parent \<Rightarrow>
               [(SendPost text (Some (reply_to_post parent)),
                 succeeded (send_post r c text (Some (reply_to_post parent))))])"
    using short
    by (simp add: reply_def then_do_Return [OF gc] succeeded_def Let_def fetched_post_def
        reply_to_post_def split: sum.split option.split)
  then show ?thesis by (simp add: content_after_client [OF gc] split: option.split)
qed

lemma like_content:
  assumes gc: "get_client r e w = (Return c, w1)"
  shows "content_calls w (snd (like r e post_uri w)) =
           (GetPostThread post_uri, succeeded (get_post_thread r c post_uri)) #
           (case fetched_post r c post_uri of
              None \<Rightarrow> []
            | Some p \<Rightarrow>
                [(LikePost (uri p) (cid p), succeeded (like_post r c (uri p) (cid p)))])"
proof -
  have "calls (snd (like r e post_uri w)) =
          calls w1 @
          (GetPostThread post_uri, succeeded (get_post_thread r c post_uri)) #
          (case fetched_post r c post_uri of
             None \<Rightarrow> []
           | Some p \<Rightarrow>
               [(LikePost (uri p) (cid p), succeeded (like_post r c (uri p) (cid p)))])"
    by (simp add: like_def then_do_Return [OF gc] succeeded_def Let_def fetched_post_def
        split: sum.split option.split)
  then show ?thesis by (simp add: content_after_client [OF gc] split: option.split)
qed

text \<open>
  Claim C3 (as amended). After \<open>get_client\<close> has returned a client, \<open>post\<close>, \<open>timeline\<close>,
  \<open>thread\<close>, \<open>search\<close> and \<open>profile\<close> each send exactly one content request. \<open>reply\<close> and
  \<open>like\<close> first fetch the thread of the target post; when that request succeeds and the
  result carries a post they send a second request (\<open>send_post\<close>, \<open>like\<close>), two in all, and
  otherwise only the first.
\<close>

theorem content_requests_per_command:
  assumes "get_client r e w = (Return c, w1)"
  shows
    "(length text \<le> 300 \<longrightarrow>
        content_calls w (snd (post r e text w)) =
          [(SendPost text None, succeeded (send_post r c text None))]) \<and>
     content_calls w (snd (timeline f r e limit flag w)) =
       [(GetTimeline limit, succeeded (get_timeline r c limit))] \<and>
     content_calls w (snd (thread r e post_uri w)) =
       [(GetPostThread post_uri, succeeded (get_post_thread r c post_uri))] \<and>
     content_calls w (snd (search r e query limit w)) =
       [(SearchPosts query limit, succeeded (search_posts r c query limit))] \<and>
     content_calls w (snd (profile r e handle_arg w)) =
       [(GetProfile (case handle_arg of None \<Rightarrow> me_handle c | Some given \<Rightarrow> given),
         succeeded (get_profile r c
           (case handle_arg of None \<Rightarrow> me_handle c | Some given \<Rightarrow> given)))] \<and>
     (length text \<le> 300 \<longrightarrow>
        content_calls w (snd (reply r e post_uri text w)) =
          (GetPostThread post_uri, succeeded (get_post_thread r c post_uri)) #
          (case fetched_post r c post_uri of
             None \<Rightarrow> []
           | Some parent \<Rightarrow>
               [(SendPost text (Some (reply_to_post parent)),
                 succeeded (send_post r c text (Some (reply_to_post parent))))])) \<and>
     content_calls w (snd (like r e post_uri w)) =
       (GetPostThread post_uri, succeeded (get_post_thread r c post_uri)) #
       (case fetched_post r c post_uri of
          None \<Rightarrow> []
        | Some p \<Rightarrow> [(LikePost (uri p) (cid p), succeeded (like_post r c (uri p) (cid p)))])"
  using post_content [OF assms] timeline_content [OF assms] thread_content [OF assms]
    search_content [OF assms] profile_content [OF assms] reply_content [OF assms]
    like_content [OF assms]
  by blast

lemma demo_fetched:
  "fetched_post demo_remote alice u = Some demo_post"
  "succeeded (get_post_thread demo_remote alice u)"
  "succeeded (like_post demo_remote alice a b)"
  "succeeded (send_post demo_remote alice t rr)"
  by (simp_all add: fetched_post_def succeeded_def demo_remote_def)

theorem like_sends_two_requests:
  "fst (get_client demo_remote demo_env (demo_world None)) = Return alice \<and>
   content_calls (demo_world None)
     (snd (like demo_remote demo_env (lit ''at://alice.test/post/1'') (demo_world None))) =
     [(GetPostThread (lit ''at://alice.test/post/1''), True),
      (LikePost (lit ''at://alice.test/post/1'') (lit ''cid1''), True)] \<and>
   length (content_calls (demo_world None)
     (snd (like demo_remote demo_env (lit ''at://alice.test/post/1'') (demo_world None)))) = 2"
  by (simp add: like_content [OF demo_fresh_ok] demo_fetched demo_fresh_ok)
     (simp add: demo_post_def)

theorem content_requests_per_command_witness:
  "fst (get_client demo_remote demo_env (demo_world None)) = Return alice \<and>
   length (lit ''hi'') \<le> 300 \<and>
   content_calls (demo_world None)
     (snd (post demo_remote demo_env (lit ''hi'') (demo_world None))) =
     [(SendPost (lit ''hi'') None, True)] \<and>
   content_calls (demo_world None)
     (snd (thread demo_remote demo_env (lit ''at://alice.test/post/1'') (demo_world None))) =
     [(GetPostThread (lit ''at://alice.test/post/1''), True)] \<and>
   content_calls (demo_world None)
     (snd (reply demo_remote demo_env (lit ''at://alice.test/post/1'') (lit ''hi'') (demo_world None))) =
     [(GetPostThread (lit ''at://alice.test/post/1''), True),
      (SendPost (lit ''hi'') (Some (reply_to_post demo_post)), True)]"
proof -
  have short: "length (lit ''hi'') \<le> 300" by (simp add: lit_def)
  show ?thesis
    using content_requests_per_command [OF demo_fresh_ok, of "lit ''hi''" _ _ _ "lit ''at://alice.test/post/1''"] short
    by (simp add: demo_fetched demo_fresh_ok)
qed






subsection \<open>The replies of a thread\<close>

lemma stdout_foldl_show_reply:
  "stdout (foldl show_reply w rs) =
     stdout w @ concat (map reply_lines (List.map_filter node_post rs))"
proof (induction rs arbitrary: w)
  case Nil
  then show ?case by (simp add: map_filter_simps)
next
  case (Cons node rs)
  then show ?case
    by (cases "node_post node") (simp_all add: show_reply_def reply_lines_def map_filter_simps)
qed

lemma get_client_other_thread:
  "get_client (r\<lparr>get_post_thread := g\<rparr>) e w = get_client r e w"
proof -
  have "try_fails (r\<lparr>get_post_thread := g\<rparr>) w s = try_fails r w s" for s
    by (simp add: try_fails_def)
  then have "restore (r\<lparr>get_post_thread := g\<rparr>) w = restore r w"
    by (auto simp: restore_def split: sum.splits option.splits)
  moreover have "fresh_login (r\<lparr>get_post_thread := g\<rparr>) e w1 = fresh_login r e w1" for w1
    by (simp add: fresh_login_def)
  ultimately show ?thesis
    by (simp add: get_client_split split: prod.split sum.split option.split)
qed

text \<open>
  Claim C10. When the fetched thread has replies, \<open>thread\<close> prints, after what it prints for
  the same thread without replies, the heading and then, for the first 10 replies in the
  order received, one line with the author and the first 100 code points of the text and
  one empty line; entries without a post are skipped, so at most 10 replies are shown and
  those after the tenth never.
\<close>

theorem thread_shows_first_ten_replies:
  assumes "get_client r e w = (Return c, w1)"
    and "get_post_thread r c post_uri = Inr (ThreadViewPost p parent (Some rs))"
    and "rs \<noteq> []"
  shows "stdout (snd (thread r e post_uri w)) =
           stdout (snd (thread (r\<lparr>get_post_thread := \<lambda>_ _. Inr (ThreadViewPost p parent None)\<rparr>)
                         e post_uri w)) @
           lit ''--- Replies ---'' #
           concat (map reply_lines (List.map_filter node_post (take 10 rs))) \<and>
         length (List.map_filter node_post (take 10 rs)) \<le> 10 \<and>
         fst (thread r e post_uri w) = Return ()"
proof -
  have gc': "get_client (r\<lparr>get_post_thread := \<lambda>_ _. Inr (ThreadViewPost p parent None)\<rparr>) e w =
               (Return c, w1)"
    using assms(1) by (simp add: get_client_other_thread)
  have shown: "length (List.map_filter node_post (take 10 rs)) \<le> 10"
    by (simp add: map_filter_def) (metis length_filter_le le_trans length_take min.cobounded2)
  have out: "stdout (snd (thread r e post_uri w)) =
           stdout (snd (thread (r\<lparr>get_post_thread := \<lambda>_ _. Inr (ThreadViewPost p parent None)\<rparr>)
                         e post_uri w)) @
           lit ''--- Replies ---'' #
           concat (map reply_lines (List.map_filter node_post (take 10 rs)))"
    using assms(2,3)
    by (simp add: thread_def then_do_Return [OF assms(1)] then_do_Return [OF gc'] Let_def
        stdout_foldl_show_reply split: option.split)
  have res: "fst (thread r e post_uri w) = Return ()"
    using assms(2)
    by (simp add: thread_def then_do_Return [OF assms(1)] Let_def)
  from out shown res show ?thesis by blast
qed


lemma map_filter_replicate:
  "f x = Some y \<Longrightarrow> List.map_filter f (replicate n x) = replicate n y"
  by (induction n) (simp_all add: map_filter_simps)

lemma busy_fresh_ok:
  "get_client busy_remote demo_env (demo_world None) =
     (Return alice, snd (get_client demo_remote demo_env (demo_world None)))"
  by (simp add: busy_remote_def get_client_other_thread demo_fresh_ok)

theorem thread_shows_first_ten_replies_witness:
  "fst (get_client busy_remote demo_env (demo_world None)) = Return alice \<and>
   get_post_thread busy_remote alice (lit ''at://alice.test/post/1'') =
     Inr (ThreadViewPost demo_post None
            (Some (NotFoundPost # replicate 11 (ThreadViewPost long_post None None)))) \<and>
   stdout (snd (thread busy_remote demo_env (lit ''at://alice.test/post/1'') (demo_world None))) =
     [lit ''--- Post ---'', lit ''@alice.test (alice.test)'', lit ''  hello'',
      lit ''  '' @ heart @ lit '' 3  '' @ repost_sign @ lit '' 0  '' @ speech_balloon @ lit '' 0'',
      [], lit ''--- Replies ---''] @
     concat (replicate 9 [lit ''@bob.test: '' @ replicate 100 98, []])"
proof -
  let ?rs = "NotFoundPost # replicate 11 (ThreadViewPost long_post None None)"
  let ?r0 = "busy_remote\<lparr>get_post_thread := \<lambda>_ _. Inr (ThreadViewPost demo_post None None)\<rparr>"
  have fetched: "get_post_thread busy_remote alice (lit ''at://alice.test/post/1'') =
      Inr (ThreadViewPost demo_post None (Some ?rs))"
    by (simp add: busy_remote_def)
  have ne: "?rs \<noteq> []" by simp
  have gc0: "get_client ?r0 demo_env (demo_world None) =
      (Return alice, snd (get_client demo_remote demo_env (demo_world None)))"
    by (simp add: get_client_other_thread busy_fresh_ok)
  have head: "stdout (snd (thread ?r0 demo_env (lit ''at://alice.test/post/1'') (demo_world None))) =
      [lit ''--- Post ---'', lit ''@alice.test (alice.test)'', lit ''  hello'',
       lit ''  '' @ heart @ lit '' 3  '' @ repost_sign @ lit '' 0  '' @ speech_balloon @ lit '' 0'',
       []]"
    by (simp add: thread_def then_do_Return [OF gc0] Let_def demo_fresh_ok)
       (simp add: demo_post_def demo_world_def or_str_def or_int_def str_int_def str_nat.simps lit_def)
  have first_ten: "List.map_filter node_post (replicate 9 (ThreadViewPost long_post None None)) =
      replicate 9 long_post"
    by (simp add: map_filter_replicate)
  have line: "reply_lines long_post = [lit ''@bob.test: '' @ replicate 100 98, []]"
    by (simp add: reply_lines_def long_post_def lit_def)
  show ?thesis
    using thread_shows_first_ten_replies [OF busy_fresh_ok fetched ne]
    by (simp add: busy_fresh_ok fetched head first_ten line)
qed

end
